theory Spec2Isabelle
  imports Main
begin

section \<open>The upload-URL handler of the builder app\<close>

text \<open>
  A shallow embedding of \<^verbatim>\<open>apps/builder/src/features/upload/api/generateUploadUrl.ts\<close>:
  the procedure \<^verbatim>\<open>generateUploadUrl\<close> and its path resolver \<^verbatim>\<open>parseFilePath\<close>.
  Exceptions are values (\<open>Inl\<close> of a \<open>TRPCError\<close>), the calls to the store, to the
  permission helpers and to the signer are recorded, in order, in a list of events
  returned next to the result.
\<close>

subsection \<open>Values of the source language\<close>

text \<open>
  A JavaScript object whose fields hold strings is a partial map from field names:
  \<^verbatim>\<open>'k' in o\<close> is \<open>o k \<noteq> None\<close> and \<^verbatim>\<open>o.k\<close> is \<open>o k\<close>, with \<open>None\<close> for
  \<^verbatim>\<open>undefined\<close>.
\<close>

type_synonym obj = "string \<rightharpoonup> string"

text \<open>Truthiness of a value of type \<^verbatim>\<open>string | undefined\<close>: \<^verbatim>\<open>undefined\<close> and
  the empty string are falsy.\<close>

definition truthy :: "string option \<Rightarrow> bool" where
  "truthy v = (case v of None \<Rightarrow> False | Some s \<Rightarrow> s \<noteq> [])"

text \<open>A value of type \<^verbatim>\<open>string | undefined\<close> inside a template literal.\<close>

definition tpl :: "string option \<Rightarrow> string" where
  "tpl v = (case v of None \<Rightarrow> ''undefined'' | Some s \<Rightarrow> s)"

text \<open>\<^verbatim>\<open>s.split(sep)\<close> for a separator of one character.\<close>

fun str_split :: "char \<Rightarrow> string \<Rightarrow> string list" where
  "str_split sep [] = [[]]"
| "str_split sep (c # cs) =
     (if c = sep then [] # str_split sep cs
      else (case str_split sep cs of
              [] \<Rightarrow> [[c]]
            | w # ws \<Rightarrow> (c # w) # ws))"

subsection \<open>Errors\<close>

datatype code = INTERNAL_SERVER_ERROR | UNAUTHORIZED | BAD_REQUEST | NOT_FOUND

datatype TRPCError = TRPCError (err_code: code) (err_message: string)

subsection \<open>The input schema\<close>

text \<open>
  The four object shapes of \<^verbatim>\<open>inputSchema.shape.filePathProps\<close>, in the order of
  the schema, and the object each one is after validation.
\<close>

datatype FilePathUploadProps =
    ByBlock string string string "string option"
  | ByTypebot string string string
  | ByUser string string
  | ByWorkspace string string

fun toObj :: "FilePathUploadProps \<Rightarrow> obj" where
  "toObj (ByBlock workspaceId typebotId blockId itemId) =
     (case itemId of
        None \<Rightarrow> [''workspaceId'' \<mapsto> workspaceId, ''typebotId'' \<mapsto> typebotId,
                 ''blockId'' \<mapsto> blockId]
      | Some i \<Rightarrow> [''workspaceId'' \<mapsto> workspaceId, ''typebotId'' \<mapsto> typebotId,
                   ''blockId'' \<mapsto> blockId, ''itemId'' \<mapsto> i])"
| "toObj (ByTypebot workspaceId typebotId fileName) =
     [''workspaceId'' \<mapsto> workspaceId, ''typebotId'' \<mapsto> typebotId,
      ''fileName'' \<mapsto> fileName]"
| "toObj (ByUser userId fileName) =
     [''userId'' \<mapsto> userId, ''fileName'' \<mapsto> fileName]"
| "toObj (ByWorkspace workspaceId fileName) =
     [''workspaceId'' \<mapsto> workspaceId, ''fileName'' \<mapsto> fileName]"

text \<open>
  \<^verbatim>\<open>.input(inputSchema)\<close>: the procedure validates the raw object before its
  resolver runs. A union of object schemas takes the first shape, in the order written,
  whose required fields are all there, and keeps the fields of that shape only; an
  object that fits no shape is refused.
\<close>

definition asByBlock :: "obj \<Rightarrow> FilePathUploadProps option" where
  "asByBlock raw =
     (case raw ''workspaceId'' of
        None \<Rightarrow> None
      | Some workspaceId \<Rightarrow>
          (case raw ''typebotId'' of
             None \<Rightarrow> None
           | Some typebotId \<Rightarrow>
               (case raw ''blockId'' of
                  None \<Rightarrow> None
                | Some blockId \<Rightarrow>
                    Some (ByBlock workspaceId typebotId blockId (raw ''itemId'')))))"

definition asByTypebot :: "obj \<Rightarrow> FilePathUploadProps option" where
  "asByTypebot raw =
     (case raw ''workspaceId'' of
        None \<Rightarrow> None
      | Some workspaceId \<Rightarrow>
          (case raw ''typebotId'' of
             None \<Rightarrow> None
           | Some typebotId \<Rightarrow>
               (case raw ''fileName'' of
                  None \<Rightarrow> None
                | Some fileName \<Rightarrow> Some (ByTypebot workspaceId typebotId fileName))))"

definition asByUser :: "obj \<Rightarrow> FilePathUploadProps option" where
  "asByUser raw =
     (case raw ''userId'' of
        None \<Rightarrow> None
      | Some userId \<Rightarrow>
          (case raw ''fileName'' of
             None \<Rightarrow> None
           | Some fileName \<Rightarrow> Some (ByUser userId fileName)))"

definition asByWorkspace :: "obj \<Rightarrow> FilePathUploadProps option" where
  "asByWorkspace raw =
     (case raw ''workspaceId'' of
        None \<Rightarrow> None
      | Some workspaceId \<Rightarrow>
          (case raw ''fileName'' of
             None \<Rightarrow> None
           | Some fileName \<Rightarrow> Some (ByWorkspace workspaceId fileName)))"

definition inputSchema :: "obj \<Rightarrow> FilePathUploadProps option" where
  "inputSchema raw =
     (case asByBlock raw of
        Some v \<Rightarrow> Some v
      | None \<Rightarrow>
          (case asByTypebot raw of
             Some v \<Rightarrow> Some v
           | None \<Rightarrow>
               (case asByUser raw of
                  Some v \<Rightarrow> Some v
                | None \<Rightarrow> asByWorkspace raw)))"

subsection \<open>The store, the permission helpers, the signer, the environment\<close>

record member =
  member_userId :: string
  member_role :: string

record workspace =
  members :: "member list"

record collaborator =
  collaborator_userId :: string
  collaborator_type :: string

record typebot =
  workspaceId :: string
  collaborators :: "collaborator list"

record user =
  user_id :: string

text \<open>
  The imported collaborators are parameters of the model:
  \<^verbatim>\<open>prisma.workspace.findUnique\<close> and \<^verbatim>\<open>prisma.typebot.findUnique\<close> by id, with
  the selected fields; the two permission helpers, given the fetched row and the user's
  id; \<^verbatim>\<open>generatePresignedUrl\<close>, given the file type and the path; and the text
  that the validation library reports for an object it refuses.
\<close>

record deps =
  workspace_findUnique :: "string \<Rightarrow> workspace option"
  typebot_findUnique :: "string \<Rightarrow> typebot option"
  isWriteWorkspaceForbidden :: "workspace \<Rightarrow> string \<Rightarrow> bool"
  isWriteTypebotForbidden :: "typebot \<Rightarrow> string \<Rightarrow> bool"
  generatePresignedUrl :: "string option \<Rightarrow> string \<Rightarrow> string"
  zodIssues :: "obj \<Rightarrow> string"

record env =
  S3_ENDPOINT :: "string option"
  S3_ACCESS_KEY :: "string option"
  S3_SECRET_KEY :: "string option"
  S3_PUBLIC_CUSTOM_DOMAIN :: "string option"

text \<open>The calls a run makes to its collaborators, in the order it makes them.\<close>

datatype event =
    Workspace_findUnique string
  | Call_isWriteWorkspaceForbidden string
  | Typebot_findUnique string
  | Call_isWriteTypebotForbidden string
  | Call_generatePresignedUrl "string option" string

subsection \<open>parseFilePath\<close>

text \<open>
  \<^verbatim>\<open>!authenticatedUserId\<close> holds for \<^verbatim>\<open>undefined\<close> and for the empty string.
  Past that test the identifier is a non-empty string, here \<open>uid\<close>. A field test
  \<^verbatim>\<open>'k' in input\<close> followed by reads of \<^verbatim>\<open>input.k\<close> is one \<open>case\<close> on
  \<open>input k\<close>.
\<close>

definition parseFilePath ::
  "deps \<Rightarrow> string option \<Rightarrow> obj \<Rightarrow> (TRPCError + string) \<times> event list" where
  "parseFilePath d authenticatedUserId input =
     (case authenticatedUserId of
        None \<Rightarrow>
          (Inl (TRPCError UNAUTHORIZED ''You must be logged in to upload this type of file''), [])
      | Some uid \<Rightarrow>
        if uid = [] then
          (Inl (TRPCError UNAUTHORIZED ''You must be logged in to upload this type of file''), [])
        else
        (case input ''userId'' of
           Some userId \<Rightarrow>
             if userId \<noteq> uid then
               (Inl (TRPCError UNAUTHORIZED
                  ''You are not authorized to upload a file for this user''), [])
             else
               (Inr (''public/users/'' @ userId @ ''/'' @ tpl (input ''fileName'')), [])
         | None \<Rightarrow>
            (case input ''workspaceId'' of
               None \<Rightarrow> (Inl (TRPCError BAD_REQUEST ''workspaceId is missing''), [])
             | Some wid \<Rightarrow>
                (case input ''typebotId'' of
                   None \<Rightarrow>
                     (case workspace_findUnique d wid of
                        None \<Rightarrow>
                          (Inl (TRPCError NOT_FOUND ''Workspace not found''),
                           [Workspace_findUnique wid])
                      | Some ws \<Rightarrow>
                          if isWriteWorkspaceForbidden d ws uid then
                            (Inl (TRPCError NOT_FOUND ''Workspace not found''),
                             [Workspace_findUnique wid, Call_isWriteWorkspaceForbidden uid])
                          else
                            (Inr (''public/workspaces/'' @ wid @ ''/'' @ tpl (input ''fileName'')),
                             [Workspace_findUnique wid, Call_isWriteWorkspaceForbidden uid]))
                 | Some tid \<Rightarrow>
                     (case typebot_findUnique d tid of
                        None \<Rightarrow>
                          (Inl (TRPCError NOT_FOUND ''Typebot not found''),
                           [Typebot_findUnique tid])
                      | Some tb \<Rightarrow>
                          if isWriteTypebotForbidden d tb uid then
                            (Inl (TRPCError NOT_FOUND ''Typebot not found''),
                             [Typebot_findUnique tid, Call_isWriteTypebotForbidden uid])
                          else
                            (case input ''blockId'' of
                               None \<Rightarrow>
                                 (Inr (''public/workspaces/'' @ wid @ ''/typebots/'' @ tid
                                       @ ''/'' @ tpl (input ''fileName'')),
                                  [Typebot_findUnique tid, Call_isWriteTypebotForbidden uid])
                             | Some blockId \<Rightarrow>
                                 (Inr (''public/workspaces/'' @ wid @ ''/typebots/'' @ tid
                                       @ ''/blocks/'' @ blockId
                                       @ (if truthy (input ''itemId'')
                                          then ''/items/'' @ tpl (input ''itemId'')
                                          else [])),
                                  [Typebot_findUnique tid,
                                   Call_isWriteTypebotForbidden uid])))))))"

subsection \<open>generateUploadUrl\<close>

text \<open>
  The resolver, the function given to \<^verbatim>\<open>.mutation(...)\<close> (lines 60 to 90 of the
  source), on any object. Its context holds the user, or nothing: \<^verbatim>\<open>!user\<close> is \<open>usr = None\<close> and
  \<^verbatim>\<open>user?.id\<close> is \<open>map_option user_id usr\<close>. The settings of the environment are
  tested for truthiness. \<^verbatim>\<open>presignedUrl.split('?')[0]\<close> is the head of the split,
  which always has a first element (\<open>str_split_not_Nil\<close> below).
\<close>

record upload_result =
  presignedUrl :: string
  fileUrl :: string

definition generateUploadUrl_resolver ::
  "env \<Rightarrow> deps \<Rightarrow> user option \<Rightarrow> obj \<Rightarrow> string option
     \<Rightarrow> (TRPCError + upload_result) \<times> event list" where
  "generateUploadUrl_resolver e d usr filePathProps fileType =
     (if \<not> truthy (S3_ENDPOINT e) \<or> \<not> truthy (S3_ACCESS_KEY e) \<or> \<not> truthy (S3_SECRET_KEY e)
      then
        (Inl (TRPCError INTERNAL_SERVER_ERROR
           ''S3 not properly configured. Missing one of those variables: S3_ENDPOINT, S3_ACCESS_KEY, S3_SECRET_KEY''),
         [])
      else if filePathProps ''resultId'' \<noteq> None \<and> usr = None then
        (Inl (TRPCError UNAUTHORIZED ''You must be logged in to upload a file''), [])
      else
        (case parseFilePath d (map_option user_id usr) filePathProps of
           (Inl err, evs) \<Rightarrow> (Inl err, evs)
         | (Inr filePath, evs) \<Rightarrow>
             (let url = generatePresignedUrl d fileType filePath in
              (Inr \<lparr> presignedUrl = url,
                     fileUrl =
                       (if truthy (S3_PUBLIC_CUSTOM_DOMAIN e)
                        then tpl (S3_PUBLIC_CUSTOM_DOMAIN e) @ ''/'' @ filePath
                        else hd (str_split CHR ''?'' url)) \<rparr>,
               evs @ [Call_generatePresignedUrl fileType filePath]))))"

text \<open>
  The procedure \<^verbatim>\<open>generateUploadUrl\<close>: the raw object goes through
  \<^verbatim>\<open>.input(inputSchema)\<close>, which refuses it with a BAD_REQUEST error or hands the
  validated object to the resolver. The \<^verbatim>\<open>.output(...)\<close> schema asks for two strings,
  which the resolver's record always holds.
\<close>

definition generateUploadUrl ::
  "env \<Rightarrow> deps \<Rightarrow> user option \<Rightarrow> obj \<Rightarrow> string option
     \<Rightarrow> (TRPCError + upload_result) \<times> event list" where
  "generateUploadUrl e d usr raw fileType =
     (case inputSchema raw of
        None \<Rightarrow> (Inl (TRPCError BAD_REQUEST (zodIssues d raw)), [])
      | Some filePathProps \<Rightarrow>
          generateUploadUrl_resolver e d usr (toObj filePathProps) fileType)"

subsection \<open>A sample installation\<close>

text \<open>
  Concrete collaborators on which the definitions are evaluated: one workspace \<open>w1\<close>
  with the member \<open>u1\<close>, one typebot \<open>t1\<close> whose row says it belongs to workspace
  \<open>w2\<close>, helpers that let \<open>u1\<close> write to both, and a signer that appends a query
  string to the object's address.
\<close>

definition sample_deps :: deps where
  "sample_deps =
     \<lparr> workspace_findUnique =
         (\<lambda>i. if i = ''w1''
               then Some \<lparr> members = [\<lparr> member_userId = ''u1'', member_role = ''ADMIN'' \<rparr>] \<rparr>
               else None),
       typebot_findUnique =
         (\<lambda>i. if i = ''t1'' then Some \<lparr> workspaceId = ''w2'', collaborators = [] \<rparr> else None),
       isWriteWorkspaceForbidden = (\<lambda>ws uid. uid \<noteq> ''u1''),
       isWriteTypebotForbidden = (\<lambda>tb uid. uid \<noteq> ''u1''),
       generatePresignedUrl = (\<lambda>fileType filePath. ''https://s3.test/bucket/'' @ filePath @ ''?sig=1?x''),
       zodIssues = (\<lambda>raw. ''Invalid input'') \<rparr>"

definition sample_env :: env where
  "sample_env =
     \<lparr> S3_ENDPOINT = Some ''s3.test'', S3_ACCESS_KEY = Some ''key'',
       S3_SECRET_KEY = Some ''secret'', S3_PUBLIC_CUSTOM_DOMAIN = None \<rparr>"

text \<open>
  The same installation with the typebot's row moved to workspace \<open>w1\<close>, and the same
  environment with a public domain set.
\<close>

definition sample_deps_moved :: deps where
  "sample_deps_moved =
     sample_deps \<lparr> typebot_findUnique :=
       (\<lambda>i. if i = ''t1'' then Some \<lparr> workspaceId = ''w1'', collaborators = [] \<rparr> else None) \<rparr>"

definition sample_env_domain :: env where
  "sample_env_domain = sample_env \<lparr> S3_PUBLIC_CUSTOM_DOMAIN := Some ''https://cdn.test'' \<rparr>"

subsection \<open>Reading an outcome\<close>

text \<open>A run fails with code \<open>c\<close> when its result is a \<open>TRPCError\<close> of that code.\<close>

definition fails_with :: "code \<Rightarrow> (TRPCError + 'a) \<times> event list \<Rightarrow> bool" where
  "fails_with c r = (case fst r of Inl err \<Rightarrow> err_code err = c | Inr _ \<Rightarrow> False)"

section \<open>Basic facts\<close>

lemma str_split_not_Nil: "str_split sep s \<noteq> []"
  by (induction s) (auto split: list.splits)

lemma hd_str_split: "hd (str_split sep s) = takeWhile (\<lambda>c. c \<noteq> sep) s"
  by (induction s) (auto split: list.splits simp: str_split_not_Nil)

lemma toObj_no_resultId: "toObj v ''resultId'' = None"
  by (cases v) (simp_all split: option.splits)

lemma parseFilePath_falsy:
  "\<not> truthy a \<Longrightarrow>
   parseFilePath d a input =
     (Inl (TRPCError UNAUTHORIZED ''You must be logged in to upload this type of file''), [])"
  by (auto simp: parseFilePath_def truthy_def split: option.splits)

text \<open>What the resolver returns on each of the four shapes, for a non-empty identifier.\<close>

lemma parseFilePath_ByUser:
  "uid \<noteq> [] \<Longrightarrow>
   parseFilePath d (Some uid) (toObj (ByUser userId fileName)) =
     (if userId \<noteq> uid
      then (Inl (TRPCError UNAUTHORIZED ''You are not authorized to upload a file for this user''), [])
      else (Inr (''public/users/'' @ userId @ ''/'' @ fileName), []))"
  by (simp add: parseFilePath_def tpl_def)

lemma parseFilePath_ByWorkspace:
  "uid \<noteq> [] \<Longrightarrow>
   parseFilePath d (Some uid) (toObj (ByWorkspace wid fileName)) =
     (case workspace_findUnique d wid of
        None \<Rightarrow> (Inl (TRPCError NOT_FOUND ''Workspace not found''), [Workspace_findUnique wid])
      | Some ws \<Rightarrow>
          (if isWriteWorkspaceForbidden d ws uid
           then Inl (TRPCError NOT_FOUND ''Workspace not found'')
           else Inr (''public/workspaces/'' @ wid @ ''/'' @ fileName),
           [Workspace_findUnique wid, Call_isWriteWorkspaceForbidden uid]))"
  by (simp add: parseFilePath_def tpl_def split: option.splits)

lemma parseFilePath_ByTypebot:
  "uid \<noteq> [] \<Longrightarrow>
   parseFilePath d (Some uid) (toObj (ByTypebot wid tid fileName)) =
     (case typebot_findUnique d tid of
        None \<Rightarrow> (Inl (TRPCError NOT_FOUND ''Typebot not found''), [Typebot_findUnique tid])
      | Some tb \<Rightarrow>
          (if isWriteTypebotForbidden d tb uid
           then Inl (TRPCError NOT_FOUND ''Typebot not found'')
           else Inr (''public/workspaces/'' @ wid @ ''/typebots/'' @ tid @ ''/'' @ fileName),
           [Typebot_findUnique tid, Call_isWriteTypebotForbidden uid]))"
  by (simp add: parseFilePath_def tpl_def split: option.splits)

lemma parseFilePath_ByBlock:
  "uid \<noteq> [] \<Longrightarrow>
   parseFilePath d (Some uid) (toObj (ByBlock wid tid bid itemId)) =
     (case typebot_findUnique d tid of
        None \<Rightarrow> (Inl (TRPCError NOT_FOUND ''Typebot not found''), [Typebot_findUnique tid])
      | Some tb \<Rightarrow>
          (if isWriteTypebotForbidden d tb uid
           then Inl (TRPCError NOT_FOUND ''Typebot not found'')
           else Inr (''public/workspaces/'' @ wid @ ''/typebots/'' @ tid @ ''/blocks/'' @ bid
                     @ (case itemId of
                          None \<Rightarrow> []
                        | Some i \<Rightarrow> if i = [] then [] else ''/items/'' @ i)),
           [Typebot_findUnique tid, Call_isWriteTypebotForbidden uid]))"
  by (simp add: parseFilePath_def tpl_def truthy_def split: option.splits)

text \<open>Validation accepts each of the four shapes and gives it back.\<close>

lemma inputSchema_toObj: "inputSchema (toObj v) = Some v"
  by (cases v)
     (simp_all add: inputSchema_def asByBlock_def asByTypebot_def asByUser_def
        asByWorkspace_def split: option.splits)

lemma generateUploadUrl_toObj:
  "generateUploadUrl e d usr (toObj v) fileType =
   generateUploadUrl_resolver e d usr (toObj v) fileType"
  by (simp add: generateUploadUrl_def inputSchema_toObj del: toObj.simps)

lemma generateUploadUrl_valid:
  "inputSchema raw = Some v \<Longrightarrow>
   generateUploadUrl e d usr raw fileType =
   generateUploadUrl_resolver e d usr (toObj v) fileType"
  by (simp add: generateUploadUrl_def)

text \<open>Where BAD_REQUEST comes from, in the path resolver and in the procedure.\<close>

lemma parseFilePath_bad_request:
  "fails_with BAD_REQUEST (parseFilePath d a input) \<longleftrightarrow>
     truthy a \<and> input ''userId'' = None \<and> input ''workspaceId'' = None"
  by (auto simp: parseFilePath_def truthy_def fails_with_def split: option.splits)

lemma toObj_userId_or_workspaceId:
  "toObj v ''userId'' \<noteq> None \<or> toObj v ''workspaceId'' \<noteq> None"
  by (cases v) (simp_all split: option.splits)

lemma resolver_bad_request:
  "fails_with BAD_REQUEST (generateUploadUrl_resolver e d usr input fileType) \<longleftrightarrow>
     truthy (S3_ENDPOINT e) \<and> truthy (S3_ACCESS_KEY e) \<and> truthy (S3_SECRET_KEY e)
     \<and> fails_with BAD_REQUEST (parseFilePath d (map_option user_id usr) input)"
  by (cases "parseFilePath d (map_option user_id usr) input";
      cases "fst (parseFilePath d (map_option user_id usr) input)")
     (auto simp: generateUploadUrl_resolver_def fails_with_def Let_def parseFilePath_falsy
        truthy_def)

lemma generateUploadUrl_bad_request:
  "fails_with BAD_REQUEST (generateUploadUrl e d usr raw fileType) \<longleftrightarrow> inputSchema raw = None"
proof (cases "inputSchema raw")
  case None
  then show ?thesis by (simp add: generateUploadUrl_def fails_with_def)
next
  case (Some v)
  have "\<not> fails_with BAD_REQUEST (generateUploadUrl_resolver e d usr (toObj v) fileType)"
    using toObj_userId_or_workspaceId [of v]
    by (simp add: resolver_bad_request parseFilePath_bad_request del: toObj.simps)
  with Some show ?thesis by (simp add: generateUploadUrl_valid del: toObj.simps)
qed

section \<open>The path of each shape\<close>

text \<open>
  Claim C1, as the code has it. For a request whose authenticated identifier is present
  (and passes the code's own test, so is not the empty string) and whose permission
  checks pass, \<open>parseFilePath\<close> returns \<open>public/users/{userId}/{fileName}\<close> for ByUser,
  \<open>public/workspaces/{workspaceId}/{fileName}\<close> for ByWorkspace,
  \<open>public/workspaces/{workspaceId}/typebots/{typebotId}/{fileName}\<close> for ByTypebot and
  \<open>public/workspaces/{workspaceId}/typebots/{typebotId}/blocks/{blockId}\<close> for ByBlock,
  with \<open>/items/{itemId}\<close> appended if and only if \<open>itemId\<close> is present and is not the
  empty string: the source tests \<^verbatim>\<open>input.itemId ? ... : ''\<close>, which an empty
  \<open>itemId\<close> fails.
\<close>

theorem parseFilePath_path_format:
  assumes "uid \<noteq> []"
  shows "fst (parseFilePath d (Some uid) (toObj (ByUser uid fileName))) =
           Inr (''public/users/'' @ uid @ ''/'' @ fileName)
       \<and> (workspace_findUnique d wid = Some ws \<and> \<not> isWriteWorkspaceForbidden d ws uid \<longrightarrow>
            fst (parseFilePath d (Some uid) (toObj (ByWorkspace wid fileName))) =
              Inr (''public/workspaces/'' @ wid @ ''/'' @ fileName))
       \<and> (typebot_findUnique d tid = Some tb \<and> \<not> isWriteTypebotForbidden d tb uid \<longrightarrow>
            fst (parseFilePath d (Some uid) (toObj (ByTypebot wid tid fileName))) =
              Inr (''public/workspaces/'' @ wid @ ''/typebots/'' @ tid @ ''/'' @ fileName)
          \<and> fst (parseFilePath d (Some uid) (toObj (ByBlock wid tid blockId itemId))) =
              Inr (''public/workspaces/'' @ wid @ ''/typebots/'' @ tid @ ''/blocks/'' @ blockId
                   @ (case itemId of
                        None \<Rightarrow> []
                      | Some i \<Rightarrow> if i = [] then [] else ''/items/'' @ i)))"
  using assms
  by (simp add: parseFilePath_ByUser parseFilePath_ByWorkspace parseFilePath_ByTypebot
      parseFilePath_ByBlock del: toObj.simps)

theorem parseFilePath_path_format_witness:
  "fst (parseFilePath sample_deps (Some ''u1'') (toObj (ByUser ''u1'' ''a.png''))) =
     Inr ''public/users/u1/a.png''
   \<and> fst (parseFilePath sample_deps (Some ''u1'') (toObj (ByWorkspace ''w1'' ''a.png''))) =
     Inr ''public/workspaces/w1/a.png''
   \<and> fst (parseFilePath sample_deps (Some ''u1'') (toObj (ByTypebot ''w1'' ''t1'' ''a.png''))) =
     Inr ''public/workspaces/w1/typebots/t1/a.png''
   \<and> fst (parseFilePath sample_deps (Some ''u1'') (toObj (ByBlock ''w1'' ''t1'' ''b1'' (Some ''i1'')))) =
     Inr ''public/workspaces/w1/typebots/t1/blocks/b1/items/i1''"
  using parseFilePath_path_format [of "''u1''" sample_deps "''a.png''" "''w1''"
      "\<lparr> members = [\<lparr> member_userId = ''u1'', member_role = ''ADMIN'' \<rparr>] \<rparr>"
      "''t1''" "\<lparr> workspaceId = ''w2'', collaborators = [] \<rparr>" "''b1''" "Some ''i1''"]
  by (simp add: sample_deps_def del: toObj.simps)

text \<open>
  Claim C1 as it is written fails on a ByBlock request whose \<open>itemId\<close> is present and
  empty: the typebot exists, the user may write to it, the field is there, and the path
  ends at the block.
\<close>

theorem parseFilePath_empty_itemId_counterexample:
  "typebot_findUnique sample_deps ''t1'' = Some \<lparr> workspaceId = ''w2'', collaborators = [] \<rparr>
   \<and> \<not> isWriteTypebotForbidden sample_deps \<lparr> workspaceId = ''w2'', collaborators = [] \<rparr> ''u1''
   \<and> toObj (ByBlock ''w1'' ''t1'' ''b1'' (Some [])) ''itemId'' = Some []
   \<and> fst (parseFilePath sample_deps (Some ''u1'') (toObj (ByBlock ''w1'' ''t1'' ''b1'' (Some []))))
       = Inr ''public/workspaces/w1/typebots/t1/blocks/b1''
   \<and> fst (parseFilePath sample_deps (Some ''u1'') (toObj (ByBlock ''w1'' ''t1'' ''b1'' (Some []))))
       \<noteq> Inr (''public/workspaces/w1/typebots/t1/blocks/b1'' @ ''/items/'' @ [])"
  by (simp add: parseFilePath_def sample_deps_def truthy_def)

section \<open>Requests without an authenticated user\<close>

text \<open>
  Claim C2. With no authenticated user (the identifier is \<^verbatim>\<open>undefined\<close>, or fails
  the test \<^verbatim>\<open>!authenticatedUserId\<close>), \<open>parseFilePath\<close> fails with an Unauthorized
  error on every input object, having called neither the store nor a permission helper.
  For the resolver on any object, and for the procedure on any raw object: with no user
  they return an error and call no collaborator at all, the signer included; the error is
  Unauthorized whenever the storage settings are there (their test comes first and has
  its own error) and, for the procedure, the object passed validation.
\<close>

theorem unauthenticated_is_unauthorized:
  "(\<not> truthy a \<longrightarrow>
      parseFilePath d a input =
        (Inl (TRPCError UNAUTHORIZED ''You must be logged in to upload this type of file''), []))
   \<and> (usr = None \<longrightarrow>
        snd (generateUploadUrl_resolver e d usr input fileType) = []
        \<and> (\<exists>err. fst (generateUploadUrl_resolver e d usr input fileType) = Inl err
             \<and> (truthy (S3_ENDPOINT e) \<and> truthy (S3_ACCESS_KEY e) \<and> truthy (S3_SECRET_KEY e)
                  \<longrightarrow> err_code err = UNAUTHORIZED)))
   \<and> (usr = None \<longrightarrow>
        snd (generateUploadUrl e d usr input fileType) = []
        \<and> (\<exists>err. fst (generateUploadUrl e d usr input fileType) = Inl err
             \<and> (truthy (S3_ENDPOINT e) \<and> truthy (S3_ACCESS_KEY e) \<and> truthy (S3_SECRET_KEY e)
                  \<and> inputSchema input \<noteq> None
                  \<longrightarrow> err_code err = UNAUTHORIZED)))"
proof -
  have p: "parseFilePath d None i =
        (Inl (TRPCError UNAUTHORIZED ''You must be logged in to upload this type of file''), [])"
    for i
    by (rule parseFilePath_falsy) (simp add: truthy_def)
  have r1: "snd (generateUploadUrl_resolver e d None i fileType) = []" for i
    by (simp add: generateUploadUrl_resolver_def p)
  have r2: "\<exists>err. fst (generateUploadUrl_resolver e d None i fileType) = Inl err
             \<and> (truthy (S3_ENDPOINT e) \<and> truthy (S3_ACCESS_KEY e) \<and> truthy (S3_SECRET_KEY e)
                  \<longrightarrow> err_code err = UNAUTHORIZED)" for i
    by (simp add: generateUploadUrl_resolver_def p)
  have g1: "snd (generateUploadUrl e d None input fileType) = []"
    by (cases "inputSchema input") (simp_all add: generateUploadUrl_def r1 del: toObj.simps)
  have g2: "\<exists>err. fst (generateUploadUrl e d None input fileType) = Inl err
             \<and> (truthy (S3_ENDPOINT e) \<and> truthy (S3_ACCESS_KEY e) \<and> truthy (S3_SECRET_KEY e)
                  \<and> inputSchema input \<noteq> None
                  \<longrightarrow> err_code err = UNAUTHORIZED)"
  proof (cases "inputSchema input")
    case None
    then show ?thesis by (simp add: generateUploadUrl_def)
  next
    case (Some v)
    with r2 [of "toObj v"] show ?thesis
      by (simp add: generateUploadUrl_def del: toObj.simps)
  qed
  show ?thesis
    using parseFilePath_falsy [of a d input] r1 [of input] r2 [of input] g1 g2 by blast
qed

theorem unauthenticated_is_unauthorized_witness:
  "parseFilePath sample_deps None (toObj (ByWorkspace ''w1'' ''a.png'')) =
        (Inl (TRPCError UNAUTHORIZED ''You must be logged in to upload this type of file''), [])
   \<and> snd (generateUploadUrl_resolver sample_env sample_deps None
            (toObj (ByWorkspace ''w1'' ''a.png'')) None) = []
   \<and> (\<exists>err. fst (generateUploadUrl_resolver sample_env sample_deps None
                   (toObj (ByWorkspace ''w1'' ''a.png'')) None) = Inl err
          \<and> err_code err = UNAUTHORIZED)
   \<and> snd (generateUploadUrl sample_env sample_deps None (toObj (ByWorkspace ''w1'' ''a.png'')) None) = []
   \<and> (\<exists>err. fst (generateUploadUrl sample_env sample_deps None
                   (toObj (ByWorkspace ''w1'' ''a.png'')) None) = Inl err
          \<and> err_code err = UNAUTHORIZED)"
  using unauthenticated_is_unauthorized [of None sample_deps "toObj (ByWorkspace ''w1'' ''a.png'')"
      None sample_env None]
  by (simp add: truthy_def sample_env_def inputSchema_toObj del: toObj.simps)

text \<open>
  Claim C3, as the code has it. The resolver's early test is
  \<^verbatim>\<open>'resultId' in filePathProps && !user\<close>: it looks for a field \<open>resultId\<close>, not
  \<open>userId\<close>. With the storage settings there and no authenticated user, the resolver
  fails with an Unauthorized error and calls no collaborator; the error is the early
  test's own (``You must be logged in to upload a file'') exactly when the object carries
  \<open>resultId\<close>, which none of the four shapes of the schema does, and otherwise the one
  of \<open>parseFilePath\<close>'s general authentication test. So a request of any of the four
  shapes, the one with a plain \<open>userId\<close> included, gets the general error, from the
  resolver and from the procedure; and so does every raw object that passes validation,
  which keeps the fields of the shape only.
\<close>

theorem unauthenticated_early_check:
  assumes "truthy (S3_ENDPOINT e)" "truthy (S3_ACCESS_KEY e)" "truthy (S3_SECRET_KEY e)"
  shows "generateUploadUrl_resolver e d None input fileType =
           (if input ''resultId'' \<noteq> None
            then (Inl (TRPCError UNAUTHORIZED ''You must be logged in to upload a file''), [])
            else (Inl (TRPCError UNAUTHORIZED
                    ''You must be logged in to upload this type of file''), []))
       \<and> generateUploadUrl_resolver e d None (toObj v) fileType =
           (Inl (TRPCError UNAUTHORIZED ''You must be logged in to upload this type of file''), [])
       \<and> generateUploadUrl e d None (toObj v) fileType =
           (Inl (TRPCError UNAUTHORIZED ''You must be logged in to upload this type of file''), [])
       \<and> (inputSchema input \<noteq> None \<longrightarrow>
            generateUploadUrl e d None input fileType =
              (Inl (TRPCError UNAUTHORIZED
                      ''You must be logged in to upload this type of file''), []))"
proof -
  have p: "\<And>i. parseFilePath d None i =
        (Inl (TRPCError UNAUTHORIZED ''You must be logged in to upload this type of file''), [])"
    by (rule parseFilePath_falsy) (simp add: truthy_def)
  have g: "\<And>i. generateUploadUrl_resolver e d None i fileType =
           (if i ''resultId'' \<noteq> None
            then (Inl (TRPCError UNAUTHORIZED ''You must be logged in to upload a file''), [])
            else (Inl (TRPCError UNAUTHORIZED
                    ''You must be logged in to upload this type of file''), []))"
    using assms by (simp add: generateUploadUrl_resolver_def p)
  have s: "\<And>w. generateUploadUrl_resolver e d None (toObj w) fileType =
           (Inl (TRPCError UNAUTHORIZED ''You must be logged in to upload this type of file''), [])"
    by (simp add: g toObj_no_resultId del: toObj.simps)
  have v: "inputSchema input \<noteq> None \<longrightarrow>
            generateUploadUrl e d None input fileType =
              (Inl (TRPCError UNAUTHORIZED
                      ''You must be logged in to upload this type of file''), [])"
    by (cases "inputSchema input") (simp_all add: generateUploadUrl_valid s del: toObj.simps)
  show ?thesis
    using g [of input] s [of v] v by (simp add: generateUploadUrl_toObj del: toObj.simps)
qed

theorem unauthenticated_early_check_witness:
  "generateUploadUrl_resolver sample_env sample_deps None
       [''resultId'' \<mapsto> ''r1'', ''fileName'' \<mapsto> ''a.png''] None =
     (Inl (TRPCError UNAUTHORIZED ''You must be logged in to upload a file''), [])
   \<and> generateUploadUrl_resolver sample_env sample_deps None
       (toObj (ByWorkspace ''w1'' ''a.png'')) None =
       (Inl (TRPCError UNAUTHORIZED ''You must be logged in to upload this type of file''), [])
   \<and> generateUploadUrl sample_env sample_deps None (toObj (ByWorkspace ''w1'' ''a.png'')) None =
       (Inl (TRPCError UNAUTHORIZED ''You must be logged in to upload this type of file''), [])
   \<and> generateUploadUrl sample_env sample_deps None
       [''resultId'' \<mapsto> ''r1'', ''userId'' \<mapsto> ''u1'', ''fileName'' \<mapsto> ''a.png''] None =
       (Inl (TRPCError UNAUTHORIZED ''You must be logged in to upload this type of file''), [])"
proof -
  have ok: "inputSchema [''resultId'' \<mapsto> ''r1'', ''userId'' \<mapsto> ''u1'', ''fileName'' \<mapsto> ''a.png'']
              \<noteq> None"
    by (simp add: inputSchema_def asByBlock_def asByTypebot_def asByUser_def)
  show ?thesis
    using unauthenticated_early_check [of sample_env sample_deps
        "[''resultId'' \<mapsto> ''r1'', ''fileName'' \<mapsto> ''a.png'']" None "ByWorkspace ''w1'' ''a.png''"]
      unauthenticated_early_check [of sample_env sample_deps
        "[''resultId'' \<mapsto> ''r1'', ''userId'' \<mapsto> ''u1'', ''fileName'' \<mapsto> ''a.png'']" None
        "ByWorkspace ''w1'' ''a.png''"]
      ok
    by (simp add: sample_env_def truthy_def del: toObj.simps)
qed

text \<open>
  Claim C3 as it is written fails on a ByUser request with no authenticated user: the
  input carries \<open>userId\<close>, and the error is the general one of \<open>parseFilePath\<close>,
  not the one of the early test.
\<close>

theorem userId_unauthenticated_counterexample:
  "toObj (ByUser ''u1'' ''a.png'') ''userId'' \<noteq> None
   \<and> generateUploadUrl sample_env sample_deps None (toObj (ByUser ''u1'' ''a.png'')) None =
       (Inl (TRPCError UNAUTHORIZED ''You must be logged in to upload this type of file''), [])
   \<and> generateUploadUrl sample_env sample_deps None (toObj (ByUser ''u1'' ''a.png'')) None \<noteq>
       (Inl (TRPCError UNAUTHORIZED ''You must be logged in to upload a file''), [])"
  by (simp add: generateUploadUrl_def inputSchema_def asByBlock_def asByTypebot_def asByUser_def
      generateUploadUrl_resolver_def parseFilePath_def sample_env_def truthy_def)

section \<open>The stored workspace of a typebot\<close>

text \<open>
  Claim C4. On a ByTypebot or ByBlock request, two installations whose typebot rows
  differ only in \<open>workspaceId\<close>, and whose permission helper answers the same on both
  rows, give the same outcome; and whenever such a request succeeds, the path is built
  from the \<open>workspaceId\<close> of the request: the one of the stored row is neither compared
  with it nor written into the path.
\<close>

theorem typebot_workspaceId_unused:
  "(typebot_findUnique d tid = Some tb
      \<and> typebot_findUnique d' tid = Some (tb\<lparr> workspaceId := w' \<rparr>)
      \<and> isWriteTypebotForbidden d' (tb\<lparr> workspaceId := w' \<rparr>) uid = isWriteTypebotForbidden d tb uid
    \<longrightarrow> parseFilePath d' (Some uid) (toObj (ByTypebot wid tid fileName)) =
          parseFilePath d (Some uid) (toObj (ByTypebot wid tid fileName))
      \<and> parseFilePath d' (Some uid) (toObj (ByBlock wid tid blockId itemId)) =
          parseFilePath d (Some uid) (toObj (ByBlock wid tid blockId itemId)))
   \<and> (fst (parseFilePath d a (toObj (ByTypebot wid tid fileName))) = Inr p \<longrightarrow>
        p = ''public/workspaces/'' @ wid @ ''/typebots/'' @ tid @ ''/'' @ fileName)
   \<and> (fst (parseFilePath d a (toObj (ByBlock wid tid blockId itemId))) = Inr q \<longrightarrow>
        q = ''public/workspaces/'' @ wid @ ''/typebots/'' @ tid @ ''/blocks/'' @ blockId
            @ (case itemId of None \<Rightarrow> [] | Some i \<Rightarrow> if i = [] then [] else ''/items/'' @ i))"
proof (intro conjI impI)
  assume h: "typebot_findUnique d tid = Some tb
      \<and> typebot_findUnique d' tid = Some (tb\<lparr> workspaceId := w' \<rparr>)
      \<and> isWriteTypebotForbidden d' (tb\<lparr> workspaceId := w' \<rparr>) uid = isWriteTypebotForbidden d tb uid"
  show "parseFilePath d' (Some uid) (toObj (ByTypebot wid tid fileName)) =
          parseFilePath d (Some uid) (toObj (ByTypebot wid tid fileName))"
  proof (cases "uid = []")
    case True
    then show ?thesis by (simp add: parseFilePath_def)
  next
    case False
    with h show ?thesis by (simp add: parseFilePath_ByTypebot del: toObj.simps)
  qed
  show "parseFilePath d' (Some uid) (toObj (ByBlock wid tid blockId itemId)) =
          parseFilePath d (Some uid) (toObj (ByBlock wid tid blockId itemId))"
  proof (cases "uid = []")
    case True
    then show ?thesis by (simp add: parseFilePath_def)
  next
    case False
    with h show ?thesis by (simp add: parseFilePath_ByBlock del: toObj.simps)
  qed
next
  assume s: "fst (parseFilePath d a (toObj (ByTypebot wid tid fileName))) = Inr p"
  show "p = ''public/workspaces/'' @ wid @ ''/typebots/'' @ tid @ ''/'' @ fileName"
  proof (cases "truthy a")
    case False
    with s show ?thesis by (simp add: parseFilePath_falsy del: toObj.simps)
  next
    case True
    then obtain uid where a: "a = Some uid" "uid \<noteq> []"
      by (auto simp: truthy_def split: option.splits)
    with s show ?thesis
      by (auto simp add: parseFilePath_ByTypebot simp del: toObj.simps
          split: option.splits if_splits)
  qed
next
  assume s: "fst (parseFilePath d a (toObj (ByBlock wid tid blockId itemId))) = Inr q"
  show "q = ''public/workspaces/'' @ wid @ ''/typebots/'' @ tid @ ''/blocks/'' @ blockId
            @ (case itemId of None \<Rightarrow> [] | Some i \<Rightarrow> if i = [] then [] else ''/items/'' @ i)"
  proof (cases "truthy a")
    case False
    with s show ?thesis by (simp add: parseFilePath_falsy del: toObj.simps)
  next
    case True
    then obtain uid where a: "a = Some uid" "uid \<noteq> []"
      by (auto simp: truthy_def split: option.splits)
    from s show ?thesis
      unfolding a parseFilePath_ByBlock [OF a(2)]
      by (cases "typebot_findUnique d tid") (simp_all split: if_splits)
  qed
qed

theorem typebot_workspaceId_unused_witness:
  "workspaceId (the (typebot_findUnique sample_deps ''t1'')) = ''w2''
   \<and> workspaceId (the (typebot_findUnique sample_deps_moved ''t1'')) = ''w1''
   \<and> parseFilePath sample_deps_moved (Some ''u1'') (toObj (ByTypebot ''w1'' ''t1'' ''a.png'')) =
        parseFilePath sample_deps (Some ''u1'') (toObj (ByTypebot ''w1'' ''t1'' ''a.png''))
   \<and> parseFilePath sample_deps_moved (Some ''u1'') (toObj (ByBlock ''w1'' ''t1'' ''b1'' None)) =
        parseFilePath sample_deps (Some ''u1'') (toObj (ByBlock ''w1'' ''t1'' ''b1'' None))
   \<and> fst (parseFilePath sample_deps (Some ''u1'') (toObj (ByTypebot ''w1'' ''t1'' ''a.png''))) =
        Inr ''public/workspaces/w1/typebots/t1/a.png''
   \<and> fst (parseFilePath sample_deps (Some ''u1'') (toObj (ByBlock ''w1'' ''t1'' ''b1'' None))) =
        Inr ''public/workspaces/w1/typebots/t1/blocks/b1''"
proof -
  have r1: "fst (parseFilePath sample_deps (Some ''u1'') (toObj (ByTypebot ''w1'' ''t1'' ''a.png''))) =
        Inr ''public/workspaces/w1/typebots/t1/a.png''"
    by (simp add: parseFilePath_def sample_deps_def tpl_def)
  have r2: "fst (parseFilePath sample_deps (Some ''u1'') (toObj (ByBlock ''w1'' ''t1'' ''b1'' None))) =
        Inr ''public/workspaces/w1/typebots/t1/blocks/b1''"
    by (simp add: parseFilePath_def sample_deps_def tpl_def truthy_def)
  show ?thesis
    using typebot_workspaceId_unused [of sample_deps "''t1''"
        "\<lparr> workspaceId = ''w2'', collaborators = [] \<rparr>" sample_deps_moved "''w1''" "''u1''"
        "''w1''" "''a.png''" "''b1''" None "Some ''u1''" "''public/workspaces/w1/typebots/t1/a.png''"
        "''public/workspaces/w1/typebots/t1/blocks/b1''"]
      r1 r2
    by (simp add: sample_deps_def sample_deps_moved_def del: toObj.simps)
qed

section \<open>Missing or forbidden targets\<close>

text \<open>
  Claim C5. On a ByWorkspace request with an authenticated user (an identifier that
  passes the code's test, so is not empty): if the workspace lookup returns nothing, or
  returns a row on which the workspace permission helper reports the user forbidden,
  \<open>parseFilePath\<close> fails with the same NotFound error in both cases; otherwise it
  returns \<open>public/workspaces/{workspaceId}/{fileName}\<close>.
\<close>

theorem workspace_missing_or_forbidden_not_found:
  assumes "uid \<noteq> []"
  shows "(workspace_findUnique d wid = None
            \<or> (\<exists>ws. workspace_findUnique d wid = Some ws \<and> isWriteWorkspaceForbidden d ws uid)
          \<longrightarrow> fst (parseFilePath d (Some uid) (toObj (ByWorkspace wid fileName))) =
                Inl (TRPCError NOT_FOUND ''Workspace not found''))
       \<and> (\<not> (workspace_findUnique d wid = None
              \<or> (\<exists>ws. workspace_findUnique d wid = Some ws \<and> isWriteWorkspaceForbidden d ws uid))
          \<longrightarrow> fst (parseFilePath d (Some uid) (toObj (ByWorkspace wid fileName))) =
                Inr (''public/workspaces/'' @ wid @ ''/'' @ fileName))"
  using assms
  by (cases "workspace_findUnique d wid")
     (simp_all add: parseFilePath_ByWorkspace del: toObj.simps)

theorem workspace_missing_or_forbidden_not_found_witness:
  "fst (parseFilePath sample_deps (Some ''u1'') (toObj (ByWorkspace ''w9'' ''a.png''))) =
     Inl (TRPCError NOT_FOUND ''Workspace not found'')
   \<and> fst (parseFilePath sample_deps (Some ''u2'') (toObj (ByWorkspace ''w1'' ''a.png''))) =
     Inl (TRPCError NOT_FOUND ''Workspace not found'')
   \<and> fst (parseFilePath sample_deps (Some ''u1'') (toObj (ByWorkspace ''w1'' ''a.png''))) =
     Inr ''public/workspaces/w1/a.png''"
  using workspace_missing_or_forbidden_not_found [of "''u1''" sample_deps "''w9''" "''a.png''"]
    workspace_missing_or_forbidden_not_found [of "''u2''" sample_deps "''w1''" "''a.png''"]
    workspace_missing_or_forbidden_not_found [of "''u1''" sample_deps "''w1''" "''a.png''"]
  by (simp add: sample_deps_def del: toObj.simps)

text \<open>
  Claim C6. On a ByTypebot or ByBlock request with an authenticated user: if the typebot
  lookup returns nothing, or the typebot permission helper reports the user forbidden,
  \<open>parseFilePath\<close> fails with a NotFound error; no path comes out, and the procedure
  never calls the signer.
\<close>

theorem typebot_missing_or_forbidden_not_found:
  assumes "uid \<noteq> []"
    and "typebot_findUnique d tid = None
           \<or> (\<exists>tb. typebot_findUnique d tid = Some tb \<and> isWriteTypebotForbidden d tb uid)"
  shows "fst (parseFilePath d (Some uid) (toObj (ByTypebot wid tid fileName))) =
           Inl (TRPCError NOT_FOUND ''Typebot not found'')
       \<and> fst (parseFilePath d (Some uid) (toObj (ByBlock wid tid blockId itemId))) =
           Inl (TRPCError NOT_FOUND ''Typebot not found'')
       \<and> Call_generatePresignedUrl fileType path \<notin>
           set (snd (generateUploadUrl e d (Some \<lparr> user_id = uid \<rparr>)
                       (toObj (ByTypebot wid tid fileName)) fileType))
       \<and> Call_generatePresignedUrl fileType path \<notin>
           set (snd (generateUploadUrl e d (Some \<lparr> user_id = uid \<rparr>)
                       (toObj (ByBlock wid tid blockId itemId)) fileType))"
  using assms
  by (cases "typebot_findUnique d tid")
     (auto simp add: parseFilePath_ByTypebot parseFilePath_ByBlock generateUploadUrl_toObj
        generateUploadUrl_resolver_def simp del: toObj.simps)

theorem typebot_missing_or_forbidden_not_found_witness:
  "fst (parseFilePath sample_deps (Some ''u1'') (toObj (ByTypebot ''w1'' ''t9'' ''a.png''))) =
     Inl (TRPCError NOT_FOUND ''Typebot not found'')
   \<and> fst (parseFilePath sample_deps (Some ''u1'') (toObj (ByBlock ''w1'' ''t9'' ''b1'' (Some ''i1'')))) =
     Inl (TRPCError NOT_FOUND ''Typebot not found'')
   \<and> fst (parseFilePath sample_deps (Some ''u2'') (toObj (ByTypebot ''w1'' ''t1'' ''a.png''))) =
     Inl (TRPCError NOT_FOUND ''Typebot not found'')
   \<and> fst (parseFilePath sample_deps (Some ''u2'') (toObj (ByBlock ''w1'' ''t1'' ''b1'' (Some ''i1'')))) =
     Inl (TRPCError NOT_FOUND ''Typebot not found'')"
  using typebot_missing_or_forbidden_not_found [of "''u1''" sample_deps "''t9''" "''w1''" "''a.png''"
      "''b1''" "Some ''i1''"]
    typebot_missing_or_forbidden_not_found [of "''u2''" sample_deps "''t1''" "''w1''" "''a.png''"
      "''b1''" "Some ''i1''"]
  by (simp add: sample_deps_def del: toObj.simps)

text \<open>
  Claim C7. On a ByUser request whose authenticated identifier differs from the target
  \<open>userId\<close>, \<open>parseFilePath\<close> fails with an Unauthorized error. No store lookup is
  made for this shape, whatever the outcome, and the outcome does not depend on the
  store: whether a user with that identifier exists plays no part.
\<close>

theorem other_user_unauthorized:
  assumes "uid \<noteq> userId"
  shows "parseFilePath d (Some uid) (toObj (ByUser userId fileName)) =
           (Inl (TRPCError UNAUTHORIZED
                   (if uid = [] then ''You must be logged in to upload this type of file''
                    else ''You are not authorized to upload a file for this user'')), [])
       \<and> snd (parseFilePath d a (toObj (ByUser userId fileName))) = []
       \<and> parseFilePath d' a (toObj (ByUser userId fileName)) =
           parseFilePath d a (toObj (ByUser userId fileName))"
proof (intro conjI)
  show "parseFilePath d (Some uid) (toObj (ByUser userId fileName)) =
           (Inl (TRPCError UNAUTHORIZED
                   (if uid = [] then ''You must be logged in to upload this type of file''
                    else ''You are not authorized to upload a file for this user'')), [])"
    using assms by (simp add: parseFilePath_def)
  show "snd (parseFilePath d a (toObj (ByUser userId fileName))) = []"
    by (simp add: parseFilePath_def split: option.splits)
  show "parseFilePath d' a (toObj (ByUser userId fileName)) =
           parseFilePath d a (toObj (ByUser userId fileName))"
    by (simp add: parseFilePath_def split: option.splits)
qed

theorem other_user_unauthorized_witness:
  "parseFilePath sample_deps (Some ''u1'') (toObj (ByUser ''u2'' ''a.png'')) =
     (Inl (TRPCError UNAUTHORIZED ''You are not authorized to upload a file for this user''), [])"
  using other_user_unauthorized [of "''u1''" "''u2''" sample_deps "''a.png''"]
  by (simp del: toObj.simps)

section \<open>The procedure\<close>

text \<open>
  Claim C8. On a raw object that passes validation, with the storage settings there,
  whenever \<open>parseFilePath\<close> returns a path the procedure succeeds: the presigned URL is
  the signer's for that path, \<open>fileUrl\<close> is the public domain, a slash and the path when
  a public domain is configured (set and not empty, the code's test), and otherwise the
  presigned URL cut before its first question mark; the signer is called once, last.
  Conversely, every success of the procedure is of this kind: the object passed
  validation, \<open>parseFilePath\<close> returned a path, and the two URLs are those.
\<close>

theorem fileUrl_of_success:
  "(truthy (S3_ENDPOINT e) \<and> truthy (S3_ACCESS_KEY e) \<and> truthy (S3_SECRET_KEY e)
      \<and> inputSchema raw = Some v
      \<and> parseFilePath d (map_option user_id usr) (toObj v) = (Inr filePath, evs)
    \<longrightarrow> generateUploadUrl e d usr raw fileType =
          (Inr \<lparr> presignedUrl = generatePresignedUrl d fileType filePath,
                 fileUrl =
                   (case S3_PUBLIC_CUSTOM_DOMAIN e of
                      None \<Rightarrow>
                        takeWhile (\<lambda>c. c \<noteq> CHR ''?'') (generatePresignedUrl d fileType filePath)
                    | Some domain \<Rightarrow>
                        if domain = []
                        then takeWhile (\<lambda>c. c \<noteq> CHR ''?'')
                               (generatePresignedUrl d fileType filePath)
                        else domain @ ''/'' @ filePath) \<rparr>,
           evs @ [Call_generatePresignedUrl fileType filePath]))
   \<and> (generateUploadUrl e d usr raw fileType = (Inr out, evs') \<longrightarrow>
        (\<exists>w path.
           inputSchema raw = Some w
         \<and> fst (parseFilePath d (map_option user_id usr) (toObj w)) = Inr path
         \<and> presignedUrl out = generatePresignedUrl d fileType path
         \<and> fileUrl out =
             (case S3_PUBLIC_CUSTOM_DOMAIN e of
                None \<Rightarrow> takeWhile (\<lambda>c. c \<noteq> CHR ''?'') (presignedUrl out)
              | Some domain \<Rightarrow>
                  if domain = [] then takeWhile (\<lambda>c. c \<noteq> CHR ''?'') (presignedUrl out)
                  else domain @ ''/'' @ path)))"
proof (intro conjI impI)
  assume h: "truthy (S3_ENDPOINT e) \<and> truthy (S3_ACCESS_KEY e) \<and> truthy (S3_SECRET_KEY e)
      \<and> inputSchema raw = Some v
      \<and> parseFilePath d (map_option user_id usr) (toObj v) = (Inr filePath, evs)"
  have u: "usr \<noteq> None"
  proof
    assume "usr = None"
    with h show False
      by (simp add: parseFilePath_falsy truthy_def del: toObj.simps)
  qed
  from h have "generateUploadUrl e d usr raw fileType =
      generateUploadUrl_resolver e d usr (toObj v) fileType"
    by (simp add: generateUploadUrl_valid del: toObj.simps)
  also from h u have "\<dots> =
          (Inr \<lparr> presignedUrl = generatePresignedUrl d fileType filePath,
                 fileUrl =
                   (case S3_PUBLIC_CUSTOM_DOMAIN e of
                      None \<Rightarrow>
                        takeWhile (\<lambda>c. c \<noteq> CHR ''?'') (generatePresignedUrl d fileType filePath)
                    | Some domain \<Rightarrow>
                        if domain = []
                        then takeWhile (\<lambda>c. c \<noteq> CHR ''?'')
                               (generatePresignedUrl d fileType filePath)
                        else domain @ ''/'' @ filePath) \<rparr>,
           evs @ [Call_generatePresignedUrl fileType filePath])"
    by (simp add: generateUploadUrl_resolver_def Let_def hd_str_split truthy_def tpl_def
        split: option.splits del: toObj.simps)
  finally show "generateUploadUrl e d usr raw fileType =
          (Inr \<lparr> presignedUrl = generatePresignedUrl d fileType filePath,
                 fileUrl =
                   (case S3_PUBLIC_CUSTOM_DOMAIN e of
                      None \<Rightarrow>
                        takeWhile (\<lambda>c. c \<noteq> CHR ''?'') (generatePresignedUrl d fileType filePath)
                    | Some domain \<Rightarrow>
                        if domain = []
                        then takeWhile (\<lambda>c. c \<noteq> CHR ''?'')
                               (generatePresignedUrl d fileType filePath)
                        else domain @ ''/'' @ filePath) \<rparr>,
           evs @ [Call_generatePresignedUrl fileType filePath])" .
next
  assume s: "generateUploadUrl e d usr raw fileType = (Inr out, evs')"
  then obtain w where w: "inputSchema raw = Some w"
    by (cases "inputSchema raw") (simp_all add: generateUploadUrl_def)
  with s have r: "generateUploadUrl_resolver e d usr (toObj w) fileType = (Inr out, evs')"
    by (simp add: generateUploadUrl_valid del: toObj.simps)
  obtain res es where p: "parseFilePath d (map_option user_id usr) (toObj w) = (res, es)"
    by (cases "parseFilePath d (map_option user_id usr) (toObj w)") auto
  have "\<exists>path.
           fst (parseFilePath d (map_option user_id usr) (toObj w)) = Inr path
         \<and> presignedUrl out = generatePresignedUrl d fileType path
         \<and> fileUrl out =
             (case S3_PUBLIC_CUSTOM_DOMAIN e of
                None \<Rightarrow> takeWhile (\<lambda>c. c \<noteq> CHR ''?'') (presignedUrl out)
              | Some domain \<Rightarrow>
                  if domain = [] then takeWhile (\<lambda>c. c \<noteq> CHR ''?'') (presignedUrl out)
                  else domain @ ''/'' @ path)"
  proof (cases res)
    case (Inl err)
    with r p show ?thesis
      by (simp add: generateUploadUrl_resolver_def split: if_splits del: toObj.simps)
  next
    case (Inr path)
    with r p show ?thesis
      by (auto simp add: generateUploadUrl_resolver_def Let_def hd_str_split truthy_def tpl_def
          simp del: toObj.simps split: if_splits option.splits)
  qed
  with w show "\<exists>w path.
           inputSchema raw = Some w
         \<and> fst (parseFilePath d (map_option user_id usr) (toObj w)) = Inr path
         \<and> presignedUrl out = generatePresignedUrl d fileType path
         \<and> fileUrl out =
             (case S3_PUBLIC_CUSTOM_DOMAIN e of
                None \<Rightarrow> takeWhile (\<lambda>c. c \<noteq> CHR ''?'') (presignedUrl out)
              | Some domain \<Rightarrow>
                  if domain = [] then takeWhile (\<lambda>c. c \<noteq> CHR ''?'') (presignedUrl out)
                  else domain @ ''/'' @ path)"
    by blast
qed

theorem fileUrl_of_success_witness:
  "generateUploadUrl sample_env sample_deps (Some \<lparr> user_id = ''u1'' \<rparr>)
       (toObj (ByUser ''u1'' ''a.png'')) None =
     (Inr \<lparr> presignedUrl = ''https://s3.test/bucket/public/users/u1/a.png?sig=1?x'',
            fileUrl = ''https://s3.test/bucket/public/users/u1/a.png'' \<rparr>,
      [Call_generatePresignedUrl None ''public/users/u1/a.png''])
   \<and> generateUploadUrl sample_env_domain sample_deps (Some \<lparr> user_id = ''u1'' \<rparr>)
       (toObj (ByUser ''u1'' ''a.png'')) None =
     (Inr \<lparr> presignedUrl = ''https://s3.test/bucket/public/users/u1/a.png?sig=1?x'',
            fileUrl = ''https://cdn.test/public/users/u1/a.png'' \<rparr>,
      [Call_generatePresignedUrl None ''public/users/u1/a.png''])"
proof -
  have p: "parseFilePath sample_deps (map_option user_id (Some \<lparr> user_id = ''u1'' \<rparr>))
             (toObj (ByUser ''u1'' ''a.png'')) = (Inr ''public/users/u1/a.png'', [])"
    by (simp add: parseFilePath_def tpl_def)
  have v: "inputSchema (toObj (ByUser ''u1'' ''a.png'')) = Some (ByUser ''u1'' ''a.png'')"
    by (rule inputSchema_toObj)
  have g: "generatePresignedUrl sample_deps None ''public/users/u1/a.png'' =
             ''https://s3.test/bucket/public/users/u1/a.png?sig=1?x''"
    by (simp add: sample_deps_def)
  have a: "generateUploadUrl sample_env sample_deps (Some \<lparr> user_id = ''u1'' \<rparr>)
       (toObj (ByUser ''u1'' ''a.png'')) None =
     (Inr \<lparr> presignedUrl = ''https://s3.test/bucket/public/users/u1/a.png?sig=1?x'',
            fileUrl = ''https://s3.test/bucket/public/users/u1/a.png'' \<rparr>,
      [Call_generatePresignedUrl None ''public/users/u1/a.png''])"
    using fileUrl_of_success [of sample_env "toObj (ByUser ''u1'' ''a.png'')"
        "ByUser ''u1'' ''a.png''" sample_deps "Some \<lparr> user_id = ''u1'' \<rparr>"
        "''public/users/u1/a.png''" "[]" None] p v
    by (simp add: g sample_env_def truthy_def del: toObj.simps)
  have b: "generateUploadUrl sample_env_domain sample_deps (Some \<lparr> user_id = ''u1'' \<rparr>)
       (toObj (ByUser ''u1'' ''a.png'')) None =
     (Inr \<lparr> presignedUrl = ''https://s3.test/bucket/public/users/u1/a.png?sig=1?x'',
            fileUrl = ''https://cdn.test/public/users/u1/a.png'' \<rparr>,
      [Call_generatePresignedUrl None ''public/users/u1/a.png''])"
    using fileUrl_of_success [of sample_env_domain "toObj (ByUser ''u1'' ''a.png'')"
        "ByUser ''u1'' ''a.png''" sample_deps "Some \<lparr> user_id = ''u1'' \<rparr>"
        "''public/users/u1/a.png''" "[]" None] p v
    by (simp add: g sample_env_def sample_env_domain_def truthy_def del: toObj.simps)
  from a b show ?thesis by blast
qed

text \<open>
  Claim C9. If any of the three storage settings is unset (or empty), the resolver fails
  with the internal configuration error, whatever the user and whatever the object, and
  calls no collaborator: the test comes before authentication and before any test on
  the shape of the input. So does the procedure on each of the four shapes, and on every
  raw object that passes validation.
\<close>

theorem missing_storage_settings:
  assumes "\<not> truthy (S3_ENDPOINT e) \<or> \<not> truthy (S3_ACCESS_KEY e) \<or> \<not> truthy (S3_SECRET_KEY e)"
  shows "generateUploadUrl_resolver e d usr input fileType =
           (Inl (TRPCError INTERNAL_SERVER_ERROR
              ''S3 not properly configured. Missing one of those variables: S3_ENDPOINT, S3_ACCESS_KEY, S3_SECRET_KEY''),
            [])
       \<and> generateUploadUrl e d usr (toObj v) fileType =
           (Inl (TRPCError INTERNAL_SERVER_ERROR
              ''S3 not properly configured. Missing one of those variables: S3_ENDPOINT, S3_ACCESS_KEY, S3_SECRET_KEY''),
            [])
       \<and> (inputSchema input \<noteq> None \<longrightarrow>
            generateUploadUrl e d usr input fileType =
              (Inl (TRPCError INTERNAL_SERVER_ERROR
                 ''S3 not properly configured. Missing one of those variables: S3_ENDPOINT, S3_ACCESS_KEY, S3_SECRET_KEY''),
               []))"
proof -
  have r: "generateUploadUrl_resolver e d usr i fileType =
           (Inl (TRPCError INTERNAL_SERVER_ERROR
              ''S3 not properly configured. Missing one of those variables: S3_ENDPOINT, S3_ACCESS_KEY, S3_SECRET_KEY''),
            [])" for i
    using assms by (simp add: generateUploadUrl_resolver_def)
  have g: "inputSchema input \<noteq> None \<longrightarrow>
            generateUploadUrl e d usr input fileType =
              (Inl (TRPCError INTERNAL_SERVER_ERROR
                 ''S3 not properly configured. Missing one of those variables: S3_ENDPOINT, S3_ACCESS_KEY, S3_SECRET_KEY''),
               [])"
    by (cases "inputSchema input") (simp_all add: generateUploadUrl_valid r del: toObj.simps)
  show ?thesis
    using r [of input] r [of "toObj v"] g
    by (simp add: generateUploadUrl_toObj del: toObj.simps)
qed

theorem missing_storage_settings_witness:
  "generateUploadUrl_resolver (sample_env \<lparr> S3_SECRET_KEY := None \<rparr>) sample_deps None
     (toObj (ByUser ''u1'' ''a.png'')) None =
           (Inl (TRPCError INTERNAL_SERVER_ERROR
              ''S3 not properly configured. Missing one of those variables: S3_ENDPOINT, S3_ACCESS_KEY, S3_SECRET_KEY''),
            [])
   \<and> generateUploadUrl (sample_env \<lparr> S3_SECRET_KEY := None \<rparr>) sample_deps None
     (toObj (ByUser ''u1'' ''a.png'')) None =
           (Inl (TRPCError INTERNAL_SERVER_ERROR
              ''S3 not properly configured. Missing one of those variables: S3_ENDPOINT, S3_ACCESS_KEY, S3_SECRET_KEY''),
            [])"
  using missing_storage_settings [of "sample_env \<lparr> S3_SECRET_KEY := None \<rparr>" sample_deps None
      "toObj (ByUser ''u1'' ''a.png'')" None "ByUser ''u1'' ''a.png''"]
  by (simp add: truthy_def del: toObj.simps)

text \<open>
  Claim C10, for \<open>parseFilePath\<close>, which takes any object. With an authenticated user, an
  object carrying neither \<open>userId\<close> nor \<open>workspaceId\<close> makes it fail with the BadRequest
  error ``workspaceId is missing'', and it fails with a BadRequest error on nothing else.
\<close>

theorem bad_request_iff:
  "(truthy a \<and> input ''userId'' = None \<and> input ''workspaceId'' = None \<longrightarrow>
      parseFilePath d a input = (Inl (TRPCError BAD_REQUEST ''workspaceId is missing''), []))
   \<and> (fails_with BAD_REQUEST (parseFilePath d a input) \<longleftrightarrow>
        truthy a \<and> input ''userId'' = None \<and> input ''workspaceId'' = None)"
proof -
  have 1: "truthy a \<and> input ''userId'' = None \<and> input ''workspaceId'' = None \<longrightarrow>
      parseFilePath d a input = (Inl (TRPCError BAD_REQUEST ''workspaceId is missing''), [])"
    by (auto simp: parseFilePath_def truthy_def split: option.splits)
  show ?thesis
    using 1 parseFilePath_bad_request [of d a input] by blast
qed

theorem bad_request_iff_witness:
  "parseFilePath sample_deps (Some ''u1'') [''fileName'' \<mapsto> ''a.png''] =
     (Inl (TRPCError BAD_REQUEST ''workspaceId is missing''), [])
   \<and> fails_with BAD_REQUEST (parseFilePath sample_deps (Some ''u1'') [''fileName'' \<mapsto> ''a.png''])
   \<and> \<not> fails_with BAD_REQUEST (parseFilePath sample_deps (Some ''u1'')
          (toObj (ByWorkspace ''w9'' ''a.png'')))"
  using bad_request_iff [of "Some ''u1''" "[''fileName'' \<mapsto> ''a.png'']" sample_deps]
    bad_request_iff [of "Some ''u1''" "toObj (ByWorkspace ''w9'' ''a.png'')" sample_deps]
  by (simp add: truthy_def fails_with_def)

end
